theory Spec2Isabelle
  imports Complex_Main
begin

section \<open>GasGuard backend: the reading-processing controller\<close>

text \<open>
  The development embeds the IoT controller of the GasGuard backend
  (\<^verbatim>\<open>src/unnamed/part_009\<close>, required by \<^verbatim>\<open>backend-new/routes/api.js\<close> as
  \<^verbatim>\<open>controllers/iotController\<close>) together with the Mongoose schemas it writes to
  (\<^verbatim>\<open>src/unnamed/part_008\<close> SensorReading, \<^verbatim>\<open>src/unnamed/part_007\<close> Alert,
  \<^verbatim>\<open>backend-new/models/VentilationStatus.js\<close>).

  The controller is asynchronous JavaScript that talks to four collaborators: the ML
  service (HTTP), MongoDB (three collections), the blockchain service (HTTP) and a
  WebSocket broadcaster. One request is modelled as a pure function from the outcome
  of each collaborator call, the request body and the database contents to an HTTP
  response and the new database contents. Every \<^verbatim>\<open>return res.status(...)\<close> and every
  exception that reaches a \<^verbatim>\<open>catch\<close> is a branch of the model, including the
  exceptions of the file logger (\<^verbatim>\<open>src/unnamed/part_006\<close>) when it formats a value
  of the wrong type.
\<close>

subsection \<open>JavaScript values of a JSON request body\<close>

text \<open>
  A JavaScript number is a finite value, \<^verbatim>\<open>NaN\<close> or an infinity. Finite doubles are
  embedded in the reals; only the sign test \<^verbatim>\<open>value >= 0\<close> and the truthiness test are
  applied to them.
\<close>

datatype jsnum = Fin real | NaN | PosInf | NegInf

datatype jsval =
    JUndefined
  | JNull
  | JBool bool
  | JNum jsnum
  | JStr string
  | JArr "jsval list"
  | JObj "(string \<times> jsval) list"

text \<open>JavaScript truthiness, as used by \<^verbatim>\<open>!clientID\<close> and \<^verbatim>\<open>!gases\<close>.\<close>

fun truthy :: "jsval \<Rightarrow> bool" where
  "truthy JUndefined = False"
| "truthy JNull = False"
| "truthy (JBool b) = b"
| "truthy (JNum (Fin x)) = (x \<noteq> 0)"
| "truthy (JNum NaN) = False"
| "truthy (JNum PosInf) = True"
| "truthy (JNum NegInf) = True"
| "truthy (JStr s) = (s \<noteq> [])"
| "truthy (JArr xs) = True"
| "truthy (JObj kvs) = True"

text \<open>
  Reading a property of a truthy value, as the destructuring
  \<^verbatim>\<open>const { methane, lpg, carbonMonoxide, hydrogenSulfide } = gases\<close> does. An object
  yields its own property or \<^verbatim>\<open>undefined\<close>; booleans, numbers, strings and arrays
  have no property of the names the handler and its logger read. The same function
  is the optional read \<^verbatim>\<open>v?.k\<close>, which is \<^verbatim>\<open>undefined\<close> on \<^verbatim>\<open>null\<close> and \<^verbatim>\<open>undefined\<close>.
\<close>

fun getProp :: "jsval \<Rightarrow> string \<Rightarrow> jsval" where
  "getProp (JObj kvs) k = (case map_of kvs k of Some v \<Rightarrow> v | None \<Rightarrow> JUndefined)"
| "getProp v k = JUndefined"

text \<open>
  \<^verbatim>\<open>isValidGasReading(value)\<close>:
  \<^verbatim>\<open>typeof value === 'number' && Number.isFinite(value) && value >= 0\<close>.
\<close>

fun isValidGasReading :: "jsval \<Rightarrow> bool" where
  "isValidGasReading (JNum (Fin x)) = (x \<ge> 0)"
| "isValidGasReading v = False"

text \<open>The numeric value of a reading that passed \<^const>\<open>isValidGasReading\<close>.\<close>

fun numberOf :: "jsval \<Rightarrow> real" where
  "numberOf (JNum (Fin x)) = x"
| "numberOf v = 0"

text \<open>
  Three conversions the logger applies to request and response fields, each of which
  can throw a \<^verbatim>\<open>TypeError\<close>.

  A template literal \<^verbatim>\<open>${v}\<close> (and likewise \<^verbatim>\<open>v * 100\<close>) converts \<open>v\<close> to a
  primitive. For a parsed JSON object this calls the inherited \<^verbatim>\<open>toString\<close> unless the
  object has an own property of that name, which is never callable; then no
  conversion is left and the conversion throws. An array joins the conversions of its
  elements.
\<close>

fun toStringThrows :: "jsval \<Rightarrow> bool" where
  "toStringThrows (JObj kvs) = (map_of kvs ''toString'' \<noteq> None)"
| "toStringThrows (JArr xs) = (\<exists>x \<in> set xs. toStringThrows x)"
| "toStringThrows v = False"

text \<open>
  \<^verbatim>\<open>v?.toFixed(n)\<close> is skipped for \<^verbatim>\<open>null\<close> and \<^verbatim>\<open>undefined\<close>, returns a string for
  every number, and throws for any other value, which has no method \<^verbatim>\<open>toFixed\<close>.
\<close>

fun toFixedThrows :: "jsval \<Rightarrow> bool" where
  "toFixedThrows JUndefined = False"
| "toFixedThrows JNull = False"
| "toFixedThrows (JNum n) = False"
| "toFixedThrows v = True"

text \<open>
  \<^verbatim>\<open>v?.toUpperCase()\<close> is skipped for \<^verbatim>\<open>null\<close> and \<^verbatim>\<open>undefined\<close>, succeeds on a
  string and throws for any other value.
\<close>

fun toUpperCaseThrows :: "jsval \<Rightarrow> bool" where
  "toUpperCaseThrows JUndefined = False"
| "toUpperCaseThrows JNull = False"
| "toUpperCaseThrows (JStr s) = False"
| "toUpperCaseThrows v = True"

text \<open>
  The fields of \<^verbatim>\<open>req.body\<close> the handler reads (\<^verbatim>\<open>source\<close> is only copied into the
  stored reading).
\<close>

record requestBody =
  clientID :: jsval
  gases :: jsval
  environmental :: jsval

text \<open>The four properties the handler reads from \<^verbatim>\<open>gases\<close>.\<close>

definition gasNames :: "string list" where
  "gasNames = [''methane'', ''lpg'', ''carbonMonoxide'', ''hydrogenSulfide'']"

subsection \<open>Risk hierarchy and severity map\<close>

text \<open>
  \<^verbatim>\<open>RISK_HIERARCHY\<close> and \<^verbatim>\<open>SEVERITY_MAP\<close> are object literals indexed by the label
  string; a label that is not a key reads as \<^verbatim>\<open>undefined\<close>.
\<close>

definition RISK_HIERARCHY :: "string \<Rightarrow> nat option" where
  "RISK_HIERARCHY l =
     (if l = ''NORMAL'' then Some 0
      else if l = ''LOW_ANOMALY'' then Some 1
      else if l = ''UNUSUAL'' then Some 2
      else if l = ''ALERT'' then Some 3
      else if l = ''WARNING'' then Some 4
      else if l = ''CRITICAL'' then Some 5
      else None)"

definition SEVERITY_MAP :: "string \<Rightarrow> string option" where
  "SEVERITY_MAP l =
     (if l = ''LOW_ANOMALY'' then Some ''low''
      else if l = ''UNUSUAL'' then Some ''medium''
      else if l = ''ALERT'' then Some ''medium''
      else if l = ''WARNING'' then Some ''high''
      else if l = ''CRITICAL'' then Some ''critical''
      else None)"

text \<open>
  \<^verbatim>\<open>const riskLevel = RISK_HIERARCHY[riskState] || 0\<close>. The members a label can
  inherit from \<^verbatim>\<open>Object.prototype\<close> (\<^verbatim>\<open>toString\<close>, \<^verbatim>\<open>constructor\<close>, ...) are not
  numbers; the only use of \<^verbatim>\<open>riskLevel\<close> is \<^verbatim>\<open>riskLevel >= n\<close> with \<^verbatim>\<open>n\<close> 2 or 4,
  which is false for them exactly as it is for 0.
\<close>

definition riskLevelOf :: "string \<Rightarrow> nat" where
  "riskLevelOf l = (case RISK_HIERARCHY l of Some n \<Rightarrow> n | None \<Rightarrow> 0)"

subsection \<open>Documents and collaborators\<close>

record gasLevels =
  methane :: real
  lpg :: real
  carbonMonoxide :: real
  hydrogenSulfide :: real

text \<open>
  The classification returned by the ML service: the fields the controller
  validates, branches on or copies into a decision, and the fields its logger
  formats. The labels \<^verbatim>\<open>riskState\<close>, \<^verbatim>\<open>confidence\<close>, \<^verbatim>\<open>overallRisk\<close> and
  \<^verbatim>\<open>dominantGas\<close> are JSON strings, \<^const>\<open>None\<close> when absent (or \<^verbatim>\<open>null\<close>); the
  other fields are kept as the JSON values they arrive as.
\<close>

record ppmClassification =
  overallRisk :: "string option"
  dominantGas :: "string option"
  gasRisks :: jsval

record mlPrediction =
  riskState :: "string option"
  confidence :: "string option"
  ppmClass :: "ppmClassification option"
  anomalyDetection :: jsval
  leakProbability :: jsval
  classificationMethod :: jsval
  recommendedAction :: jsval

text \<open>
  The outcome of \<^verbatim>\<open>axios.post(ML_SERVICE_URL/predict, ..., {timeout})\<close>: the promise
  rejects (connection refused, timeout, non-2xx status), or resolves with
  \<^verbatim>\<open>response.data\<close>, which may be empty.
\<close>

datatype mlOutcome = MLRejected | MLResolved "mlPrediction option"

datatype ventMode = OFF | AUTO | FORCED

record ventilationStatus =
  isActive :: bool
  mode :: ventMode
  triggeredBy :: "string option"

record alert =
  alertClientID :: jsval
  severity :: string
  alertRiskState :: string
  alertGasLevels :: gasLevels
  alertDominantGas :: string
  alertConfidence :: "string option"
  alertVentilation :: bool
  alertBlockchain :: bool

record actionsTaken =
  alertCreated :: bool
  ventilationTriggered :: bool
  blockchainLogged :: bool
  notificationSent :: bool

record sensorReading =
  readingClientID :: jsval
  gasReadings :: gasLevels
  readingEnvironmental :: jsval
  readingPrediction :: mlPrediction
  readingActions :: actionsTaken
  readingTimestamp :: nat

record auditEvent =
  eventClientID :: jsval
  eventRiskState :: string
  eventAlertLinked :: bool
  eventConfidence :: "string option"

text \<open>
  The database and the ledger as the controller sees them. \<^verbatim>\<open>ventilation\<close> is the
  VentilationStatus collection keyed by \<^verbatim>\<open>clientID\<close> (the controller only ever uses
  \<^verbatim>\<open>findOneAndUpdate({ clientID }, ..., {upsert: true})\<close>). \<^verbatim>\<open>ventilationCalls\<close> is
  the trace of completed ventilation updates (zone and mode written), and
  \<^verbatim>\<open>auditLog\<close> the events accepted by \<^verbatim>\<open>POST BLOCKCHAIN_URL/log-event\<close>.
\<close>

record store =
  readings :: "sensorReading list"
  alerts :: "alert list"
  ventilation :: "jsval \<rightharpoonup> ventilationStatus"
  ventilationCalls :: "(jsval \<times> ventMode) list"
  auditLog :: "auditEvent list"

text \<open>
  The environment of one request: the configuration flag and, for each collaborator
  call, whether it succeeds. A failing database call throws; the model leaves the
  store as it was before that call. For the two \<^verbatim>\<open>save()\<close> calls the flag stands for
  everything that is not decided by the validators modelled below: the database
  itself and the casts of the fields that are only stored (\<^verbatim>\<open>environmental\<close>,
  \<^verbatim>\<open>anomalyDetection\<close>, \<^verbatim>\<open>leakProbability\<close>, \<^verbatim>\<open>classificationMethod\<close>).
\<close>

record env =
  BLOCKCHAIN_ENABLED :: bool
  mlCall :: mlOutcome
  alertSave :: bool
  ventilationUpdate :: bool
  blockchainPost :: bool
  readingSave :: bool
  now :: nat

record actionsReport =
  reportAlertCreated :: bool
  reportVentilationTriggered :: bool
  reportVentilationMode :: "ventMode option"
  reportBlockchainLogged :: bool

datatype response =
    Response400 string
  | Response503
  | Response500
  | Response200 mlPrediction actionsReport

fun status :: "response \<Rightarrow> nat" where
  "status (Response400 msg) = 400"
| "status Response503 = 503"
| "status Response500 = 500"
| "status (Response200 c a) = 200"

subsection \<open>Schema validation on save\<close>

text \<open>
  Mongoose casts and validates a document against its schema when \<^verbatim>\<open>save()\<close> is
  called and rejects the promise on a violation. \<^verbatim>\<open>clientID\<close> is a required String in
  the SensorReading and Alert schemas: a string, number or boolean is cast to a
  string, an object whose \<^verbatim>\<open>_id\<close> is a non-empty string is cast to that string, and an
  array or any other plain object is a cast error. (The model keeps the identifier
  as the JSON value it arrived as and does not compute the string Mongoose stores.)
\<close>

fun castsToString :: "jsval \<Rightarrow> bool" where
  "castsToString (JStr s) = True"
| "castsToString (JNum n) = True"
| "castsToString (JBool b) = True"
| "castsToString (JArr xs) = False"
| "castsToString (JObj kvs) =
     (case map_of kvs ''_id'' of Some (JStr i) \<Rightarrow> i \<noteq> [] | _ \<Rightarrow> False)"
| "castsToString JUndefined = False"
| "castsToString JNull = False"

text \<open>
  For the SensorReading schema the other fields that can violate it after the
  controller's own checks are the two enumerated strings \<^verbatim>\<open>mlPrediction.riskState\<close>
  and \<^verbatim>\<open>mlPrediction.confidence\<close> (an absent value passes an \<^verbatim>\<open>enum\<close> validator). For
  the Alert schema they are \<^verbatim>\<open>severity\<close> and \<^verbatim>\<open>riskState\<close>, both required and
  enumerated.
\<close>

definition readingRiskStates :: "string list" where
  "readingRiskStates =
     [''NORMAL'', ''LOW_ANOMALY'', ''UNUSUAL'', ''ALERT'', ''WARNING'', ''CRITICAL'']"

definition confidenceValues :: "string list" where
  "confidenceValues = [''high'', ''medium'', ''low'']"

definition alertRiskStates :: "string list" where
  "alertRiskStates = [''LOW_ANOMALY'', ''UNUSUAL'', ''ALERT'', ''WARNING'', ''CRITICAL'']"

definition severityValues :: "string list" where
  "severityValues = [''low'', ''medium'', ''high'', ''critical'']"

definition enumOk :: "string list \<Rightarrow> string option \<Rightarrow> bool" where
  "enumOk allowed v = (case v of None \<Rightarrow> True | Some x \<Rightarrow> x \<in> set allowed)"

definition readingValid :: "sensorReading \<Rightarrow> bool" where
  "readingValid r =
     (castsToString (readingClientID r) \<and>
      enumOk readingRiskStates (riskState (readingPrediction r)) \<and>
      enumOk confidenceValues (confidence (readingPrediction r)))"

definition alertValid :: "alert \<Rightarrow> bool" where
  "alertValid a =
     (castsToString (alertClientID a) \<and>
      severity a \<in> set severityValues \<and> alertRiskState a \<in> set alertRiskStates)"

subsection \<open>The file logger\<close>

text \<open>
  The logger (\<^verbatim>\<open>src/unnamed/part_006\<close>) formats its arguments into a message and
  appends it to a file asynchronously; a failed write is caught inside the logger.
  What the handler can observe of a logger call is whether formatting the message
  throws, which is what the two predicates below say.

  \<^verbatim>\<open>logSensorInput(clientID, gases, environmental || {})\<close> formats \<^verbatim>\<open>${clientID}\<close>, the
  four validated gas numbers with \<^verbatim>\<open>toFixed(2)\<close>, and
  \<^verbatim>\<open>environmental?.temperature?.toFixed(1)\<close>, likewise \<^verbatim>\<open>humidity\<close> and \<^verbatim>\<open>pressure\<close>.
\<close>

definition logSensorInputThrows :: "jsval \<Rightarrow> jsval \<Rightarrow> bool" where
  "logSensorInputThrows cid envl =
     (let ev = (if truthy envl then envl else JObj [])
      in toStringThrows cid \<or>
         toFixedThrows (getProp ev ''temperature'') \<or>
         toFixedThrows (getProp ev ''humidity'') \<or>
         toFixedThrows (getProp ev ''pressure''))"

text \<open>
  \<^verbatim>\<open>logMLResponse(mlPrediction, clientID)\<close> is called with a response that passed the
  handler's check and with a \<^verbatim>\<open>clientID\<close> that \<^verbatim>\<open>logSensorInput\<close> has formatted
  before. It formats the string labels, \<^verbatim>\<open>(leakProbability * 100).toFixed(1)\<close>,
  \<^verbatim>\<open>${classificationMethod}\<close>, for each gas
  \<^verbatim>\<open>ppmClassification?.gasRisks?.<gas>?.ppm?.toFixed(2) ?? 'N/A'\<close> and
  \<^verbatim>\<open>${...?.<gas>?.risk ?? 'N/A'}\<close>, the fields \<^verbatim>\<open>risk\<close>,
  \<^verbatim>\<open>predictionError?.toFixed(4)\<close> and \<^verbatim>\<open>trend\<close> of \<^verbatim>\<open>anomalyDetection\<close>, and
  \<^verbatim>\<open>recommendedAction?.toUpperCase()\<close>.
\<close>

definition gasRiskThrows :: "jsval \<Rightarrow> string \<Rightarrow> bool" where
  "gasRiskThrows risks g =
     (toFixedThrows (getProp (getProp risks g) ''ppm'') \<or>
      toStringThrows (getProp (getProp risks g) ''risk''))"

definition logMLResponseThrows :: "mlPrediction \<Rightarrow> bool" where
  "logMLResponseThrows ml =
     (toStringThrows (leakProbability ml) \<or>
      toStringThrows (classificationMethod ml) \<or>
      (case ppmClass ml of
         None \<Rightarrow> False
       | Some p \<Rightarrow>
           gasRiskThrows (gasRisks p) ''methane'' \<or>
           gasRiskThrows (gasRisks p) ''lpg'' \<or>
           gasRiskThrows (gasRisks p) ''carbonMonoxide'' \<or>
           gasRiskThrows (gasRisks p) ''hydrogenSulfide'') \<or>
      toStringThrows (getProp (anomalyDetection ml) ''risk'') \<or>
      toFixedThrows (getProp (anomalyDetection ml) ''predictionError'') \<or>
      toStringThrows (getProp (anomalyDetection ml) ''trend'') \<or>
      toUpperCaseThrows (recommendedAction ml))"

subsection \<open>createAlert and triggerVentilation\<close>

text \<open>
  \<^verbatim>\<open>createAlert\<close> builds the alert and saves it; \<^const>\<open>None\<close> is the rejected
  \<^verbatim>\<open>alert.save()\<close>. The message text, identifiers and timestamps of the document
  are not modelled.
\<close>

definition createAlert ::
  "env \<Rightarrow> jsval \<Rightarrow> mlPrediction \<Rightarrow> gasLevels \<Rightarrow> store \<Rightarrow> (alert \<times> store) option" where
  "createAlert e cid ml gl s =
     (case riskState ml of
        None \<Rightarrow> None
      | Some rs \<Rightarrow>
          (let a = \<lparr> alertClientID = cid,
                     severity = (case SEVERITY_MAP rs of Some v \<Rightarrow> v | None \<Rightarrow> ''medium''),
                     alertRiskState = rs,
                     alertGasLevels = gl,
                     alertDominantGas =
                       (case ppmClass ml of
                          None \<Rightarrow> ''unknown''
                        | Some p \<Rightarrow>
                            (case dominantGas p of
                               None \<Rightarrow> ''unknown''
                             | Some g \<Rightarrow> if g = [] then ''unknown'' else g)),
                     alertConfidence = confidence ml,
                     alertVentilation = (riskLevelOf rs \<ge> riskLevelOf ''WARNING''),
                     alertBlockchain =
                       (BLOCKCHAIN_ENABLED e \<and> riskLevelOf rs \<ge> riskLevelOf ''WARNING'') \<rparr>
           in if alertValid a \<and> alertSave e
              then Some (a, s\<lparr> alerts := alerts s @ [a] \<rparr>)
              else None))"

text \<open>
  \<^verbatim>\<open>triggerVentilation\<close>: the mode is \<^verbatim>\<open>FORCED\<close> for the label \<^verbatim>\<open>CRITICAL\<close> and
  \<^verbatim>\<open>AUTO\<close> for any other; the update \<^verbatim>\<open>$set\<close>s \<^verbatim>\<open>isActive\<close>, \<^verbatim>\<open>mode\<close> and
  \<^verbatim>\<open>triggeredBy\<close> on the zone's document, creating it when there is none, without
  reading the stored mode.
\<close>

definition triggerVentilation ::
  "env \<Rightarrow> jsval \<Rightarrow> string \<Rightarrow> store \<Rightarrow> (ventilationStatus \<times> store) option" where
  "triggerVentilation e cid rs s =
     (let m = (if rs = ''CRITICAL'' then FORCED else AUTO);
          v = \<lparr> isActive = True, mode = m, triggeredBy = Some rs \<rparr>
      in if ventilationUpdate e
         then Some (v, s\<lparr> ventilation := (ventilation s)(cid \<mapsto> v),
                          ventilationCalls := ventilationCalls s @ [(cid, m)] \<rparr>)
         else None)"

subsection \<open>processSensorReading\<close>

text \<open>
  Step 3 of the handler, the decision engine, is three guarded blocks executed in
  order; each is a function here. The guards compare \<^verbatim>\<open>riskLevel\<close> with
  \<^verbatim>\<open>RISK_HIERARCHY['UNUSUAL']\<close> and \<^verbatim>\<open>RISK_HIERARCHY['WARNING']\<close>.

  \<^verbatim>\<open>if (riskLevel >= RISK_HIERARCHY['UNUSUAL']) { alert = await createAlert(...) }\<close>:
  \<^const>\<open>None\<close> is the exception of a rejected save, which leaves the handler.
\<close>

definition alertStage ::
  "env \<Rightarrow> jsval \<Rightarrow> gasLevels \<Rightarrow> mlPrediction \<Rightarrow> string \<Rightarrow> store \<Rightarrow> (alert option \<times> store) option" where
  "alertStage e cid gl ml rs s =
     (if riskLevelOf rs \<ge> riskLevelOf ''UNUSUAL''
      then (case createAlert e cid ml gl s of
              None \<Rightarrow> None
            | Some (a, s') \<Rightarrow> Some (Some a, s'))
      else Some (None, s))"

text \<open>
  \<^verbatim>\<open>if (riskLevel >= RISK_HIERARCHY['WARNING']) { ventilationAction = await triggerVentilation(clientID, riskState) }\<close>.
\<close>

definition ventilationStage ::
  "env \<Rightarrow> jsval \<Rightarrow> string \<Rightarrow> store \<Rightarrow> (ventilationStatus option \<times> store) option" where
  "ventilationStage e cid rs s =
     (if riskLevelOf rs \<ge> riskLevelOf ''WARNING''
      then (case triggerVentilation e cid rs s of
              None \<Rightarrow> None
            | Some (v, s') \<Rightarrow> Some (Some v, s'))
      else Some (None, s))"

text \<open>
  \<^verbatim>\<open>if (BLOCKCHAIN_ENABLED && riskLevel >= RISK_HIERARCHY['WARNING']) { try { await axios.post(...); blockchainLogged = true } catch { log } }\<close>:
  a failed post is caught and only leaves the flag \<^verbatim>\<open>false\<close>.
\<close>

definition auditStage ::
  "env \<Rightarrow> jsval \<Rightarrow> mlPrediction \<Rightarrow> string \<Rightarrow> alert option \<Rightarrow> store \<Rightarrow> bool \<times> store" where
  "auditStage e cid ml rs alertDoc s =
     (if BLOCKCHAIN_ENABLED e \<and> riskLevelOf rs \<ge> riskLevelOf ''WARNING''
      then (if blockchainPost e
            then (True, s\<lparr> auditLog := auditLog s @
                              [\<lparr> eventClientID = cid, eventRiskState = rs,
                                 eventAlertLinked = (alertDoc \<noteq> None),
                                 eventConfidence = confidence ml \<rparr>] \<rparr>)
            else (False, s))
      else (False, s))"

text \<open>
  Step 3 to step 5 of the handler (decision engine, save, response), entered with a
  validated body and an ML response whose \<^verbatim>\<open>riskState\<close> is the truthy string \<open>rs\<close>.
  An exception thrown by \<^verbatim>\<open>createAlert\<close>, \<^verbatim>\<open>triggerVentilation\<close> or
  \<^verbatim>\<open>reading.save()\<close> reaches the outer \<^verbatim>\<open>catch\<close>, which answers 500 and undoes
  nothing. Constructing the reading document does not throw (Mongoose reports what
  it cannot cast when \<^verbatim>\<open>save()\<close> is called). The logger calls of these steps
  (\<^verbatim>\<open>logAlert\<close>, \<^verbatim>\<open>logActions\<close>) format fields of a saved alert and values already
  formatted before, and the WebSocket broadcast only copies values into messages;
  neither writes the database or the response, and they are left out.
\<close>

definition decisionEngine ::
  "env \<Rightarrow> jsval \<Rightarrow> gasLevels \<Rightarrow> jsval \<Rightarrow> mlPrediction \<Rightarrow> string \<Rightarrow> store \<Rightarrow>
     response \<times> store" where
  "decisionEngine e cid gl envl ml rs s =
     (case alertStage e cid gl ml rs s of
        None \<Rightarrow> (Response500, s)
      | Some (alertDoc, s1) \<Rightarrow>
          (case ventilationStage e cid rs s1 of
             None \<Rightarrow> (Response500, s1)
           | Some (ventilationAction, s2) \<Rightarrow>
               (case auditStage e cid ml rs alertDoc s2 of
                  (posted, s3) \<Rightarrow>
                    (let reading = \<lparr> readingClientID = cid,
                                     gasReadings = gl,
                                     readingEnvironmental =
                                       (if truthy envl then envl else JObj []),
                                     readingPrediction = ml,
                                     readingActions =
                                       \<lparr> alertCreated = (alertDoc \<noteq> None),
                                         ventilationTriggered = (ventilationAction \<noteq> None),
                                         blockchainLogged = posted,
                                         notificationSent = False \<rparr>,
                                     readingTimestamp = now e \<rparr>
                     in if readingValid reading \<and> readingSave e
                        then (Response200 ml
                                \<lparr> reportAlertCreated = (alertDoc \<noteq> None),
                                  reportVentilationTriggered = (ventilationAction \<noteq> None),
                                  reportVentilationMode = map_option mode ventilationAction,
                                  reportBlockchainLogged = posted \<rparr>,
                              s3\<lparr> readings := readings s3 @ [reading] \<rparr>)
                        else (Response500, s3)))))"

text \<open>
  Step 1 of the handler: the ML call, the check of its response
  (\<^verbatim>\<open>!mlPrediction || !mlPrediction.riskState || !mlPrediction.ppmClassification\<close>) and
  \<^verbatim>\<open>logger.logMLResponse\<close>, all inside one \<^verbatim>\<open>try\<close> whose \<^verbatim>\<open>catch\<close> answers 503.
  (\<^verbatim>\<open>logger.logMLRequest\<close> serialises the payload built from the validated body with
  \<^verbatim>\<open>JSON.stringify\<close>, which does not throw on parsed JSON.)
\<close>

definition classify ::
  "env \<Rightarrow> jsval \<Rightarrow> gasLevels \<Rightarrow> jsval \<Rightarrow> store \<Rightarrow> response \<times> store" where
  "classify e cid gl envl s =
     (case mlCall e of
        MLRejected \<Rightarrow> (Response503, s)
      | MLResolved None \<Rightarrow> (Response503, s)
      | MLResolved (Some ml) \<Rightarrow>
          (case riskState ml of
             None \<Rightarrow> (Response503, s)
           | Some rs \<Rightarrow>
               if rs = [] \<or> ppmClass ml = None then (Response503, s)
               else if logMLResponseThrows ml then (Response503, s)
               else decisionEngine e cid gl envl ml rs s))"

text \<open>
  The handler of \<^verbatim>\<open>POST /api/readings\<close>, from the validation of the body on. The call
  \<^verbatim>\<open>logger.logSensorInput(clientID, gases, environmental || {})\<close> comes after the three
  checks and before the \<^verbatim>\<open>try\<close> around the ML call: when it throws, the outer
  \<^verbatim>\<open>catch\<close> answers 500.
\<close>

definition processSensorReading ::
  "env \<Rightarrow> requestBody \<Rightarrow> store \<Rightarrow> response \<times> store" where
  "processSensorReading e body s =
     (if \<not> truthy (clientID body) \<or> \<not> truthy (gases body)
      then (Response400 ''Missing required fields: clientID and gases'', s)
      else
        (let m = getProp (gases body) ''methane'';
             l = getProp (gases body) ''lpg'';
             c = getProp (gases body) ''carbonMonoxide'';
             h = getProp (gases body) ''hydrogenSulfide''
         in if m = JUndefined \<or> l = JUndefined \<or> c = JUndefined \<or> h = JUndefined
            then (Response400
                    ''All gas readings required: methane, lpg, carbonMonoxide, hydrogenSulfide'', s)
            else if \<not> isValidGasReading m \<or> \<not> isValidGasReading l \<or>
                    \<not> isValidGasReading c \<or> \<not> isValidGasReading h
            then (Response400 ''Gas readings must be non-negative finite numbers'', s)
            else if logSensorInputThrows (clientID body) (environmental body)
            then (Response500, s)
            else classify e (clientID body)
                   \<lparr> methane = numberOf m, lpg = numberOf l,
                     carbonMonoxide = numberOf c, hydrogenSulfide = numberOf h \<rparr>
                   (environmental body) s))"

subsection \<open>A sequence of requests\<close>

text \<open>
  Requests are served one after another; each one starts from the store the previous
  one left, whatever it answered.
\<close>

fun processAll :: "(env \<times> requestBody) list \<Rightarrow> store \<Rightarrow> store" where
  "processAll [] s = s"
| "processAll ((e, body) # rest) s = processAll rest (snd (processSensorReading e body s))"

subsection \<open>The legacy ML client\<close>

text \<open>
  \<^verbatim>\<open>getRiskPrediction(gasValues)\<close> of \<^verbatim>\<open>backend/services/mlService.js\<close>, the ML client
  of the older backend: it returns \<^verbatim>\<open>response.data\<close> of the POST to the ML service,
  and when the call throws it logs the error and returns a fixed fallback object.
  The argument is the outcome of the call, \<^const>\<open>None\<close> when it throws.
\<close>

definition getRiskPrediction :: "jsval option \<Rightarrow> jsval" where
  "getRiskPrediction outcome =
     (case outcome of
        Some d \<Rightarrow> d
      | None \<Rightarrow> JObj [(''riskState'', JStr ''UNKNOWN''), (''notify'', JBool False),
                       (''alarm'', JBool False), (''ventilation'', JBool False)])"


section \<open>The fusion rule of the ML service\<close>

text \<open>
  The Fusion Engine (\<^verbatim>\<open>Fuse\<close>, spec section 4.3) runs inside the Python ML service
  (\<^verbatim>\<open>ml-service/app.py\<close>), which is not among the sources; only its documentation is
  (\<^verbatim>\<open>ARCHITECTURE.md\<close>, "Fusion: Max-Risk Rule", and
  \<^verbatim>\<open>ml-service/README_CLASSIFICATION.md\<close>, "Step 3: Hybrid Decision"). The definitions
  of this section therefore follow the spec's words, not code.
\<close>

text \<open>
  Modelled from the spec: \<^verbatim>\<open>RiskLevel\<close>, the "ordered enumeration with six values and
  a total order NORMAL(0) < LOW_ANOMALY(1) < UNUSUAL(2) < ALERT(3) < WARNING(4) <
  CRITICAL(5)" (the ML service's risk levels are missing from the sources).
\<close>

datatype RiskLevel = NORMAL | LOW_ANOMALY | UNUSUAL | ALERT | WARNING | CRITICAL

text \<open>Modelled from the spec: the numeric rank of a \<^verbatim>\<open>RiskLevel\<close> in that order.\<close>

fun rank :: "RiskLevel \<Rightarrow> nat" where
  "rank NORMAL = 0"
| "rank LOW_ANOMALY = 1"
| "rank UNUSUAL = 2"
| "rank ALERT = 3"
| "rank WARNING = 4"
| "rank CRITICAL = 5"

text \<open>
  Modelled from the spec: the classifier outputs of the data model (threshold
  classification, anomaly classification, fused classification), whose producers in
  the ML service are missing from the sources.
\<close>

datatype Confidence = High | Medium | Low

datatype Trend = Increasing | Decreasing | Stable

record ThresholdClassification =
  thresholdRisk :: RiskLevel
  thresholdDominantGas :: string

record AnomalyClassification =
  anomalyRisk :: RiskLevel
  predictionError :: real
  trend :: Trend

record FusedClassification =
  fusedRisk :: RiskLevel
  fusedConfidence :: Confidence
  leakProbability :: real

text \<open>
  Modelled from the spec: \<^verbatim>\<open>Fuse\<close> of the ML service's Fusion Engine, which is missing
  from the sources. "RiskLevel = max of both ranks (or threshold-only if anomaly
  unavailable). Confidence: computed from |rank(threshold) - rank(anomaly)|: 0 high,
  1 medium, 2 or more low (force low if anomaly was unavailable). LeakProbability =
  rank(FusedClassification.RiskLevel) / 5.0", clamped to the interval from 0 to 1.
\<close>

definition Fuse :: "ThresholdClassification \<Rightarrow> AnomalyClassification option \<Rightarrow> FusedClassification" where
  "Fuse t an =
     (let level = (case an of
                     None \<Rightarrow> thresholdRisk t
                   | Some a \<Rightarrow> if rank (thresholdRisk t) < rank (anomalyRisk a)
                               then anomalyRisk a else thresholdRisk t);
          conf = (case an of
                    None \<Rightarrow> Low
                  | Some a \<Rightarrow>
                      (let d = (if rank (thresholdRisk t) < rank (anomalyRisk a)
                                then rank (anomalyRisk a) - rank (thresholdRisk t)
                                else rank (thresholdRisk t) - rank (anomalyRisk a))
                       in if d = 0 then High else if d = 1 then Medium else Low))
      in \<lparr> fusedRisk = level, fusedConfidence = conf,
           leakProbability = min 1 (max 0 (real (rank level) / 5)) \<rparr>)"

section \<open>Listing endpoints\<close>

subsection \<open>parseInt\<close>

text \<open>
  \<^verbatim>\<open>parseInt(string)\<close> of ECMAScript with no radix: leading white space is skipped, an
  optional sign is read, a prefix \<^verbatim>\<open>0x\<close> or \<^verbatim>\<open>0X\<close> selects radix 16 (otherwise 10), and
  the longest run of digits of that radix is the value; with no digit the result is
  \<^verbatim>\<open>NaN\<close>, here \<^const>\<open>None\<close>. Strings are sequences of code units below 256. The
  result is kept as the exact integer: JavaScript rounds it to a double, which changes
  neither its sign nor whether it is 0, nor its comparison with 1 and 500, the only
  things \<^verbatim>\<open>parseLimit\<close> looks at.
\<close>

definition isStrWhiteSpaceChar :: "char \<Rightarrow> bool" where
  "isStrWhiteSpaceChar c = (of_char c \<in> {9, 10, 11, 12, 13, 32, 160 :: nat})"

definition digitValue :: "char \<Rightarrow> nat option" where
  "digitValue c =
     (let n = (of_char c :: nat)
      in if 48 \<le> n \<and> n \<le> 57 then Some (n - 48)
         else if 97 \<le> n \<and> n \<le> 122 then Some (n - 87)
         else if 65 \<le> n \<and> n \<le> 90 then Some (n - 55)
         else None)"

fun readDigits :: "nat \<Rightarrow> string \<Rightarrow> nat list" where
  "readDigits R [] = []"
| "readDigits R (c # cs) =
     (case digitValue c of
        None \<Rightarrow> []
      | Some d \<Rightarrow> if d < R then d # readDigits R cs else [])"

definition parseInt :: "string \<Rightarrow> int option" where
  "parseInt input =
     (let s0 = dropWhile isStrWhiteSpaceChar input;
          negative = (case s0 of [] \<Rightarrow> False | c # cs \<Rightarrow> c = CHR ''-'');
          s1 = (case s0 of
                  [] \<Rightarrow> []
                | c # cs \<Rightarrow> if c = CHR ''+'' \<or> c = CHR ''-'' then cs else s0);
          hex = (take 2 s1 = ''0x'' \<or> take 2 s1 = ''0X'');
          R = (if hex then 16 else 10);
          ds = readDigits R (if hex then drop 2 s1 else s1)
      in if ds = [] then None
         else Some ((if negative then - 1 else 1) * int (foldl (\<lambda>acc d. acc * R + d) 0 ds)))"

subsection \<open>parseLimit, getReadings and getAlerts\<close>










section \<open>Sample inputs\<close>

text \<open>
  Concrete inputs at which the properties below are evaluated: a zone, a well-formed
  body (the gas values of the spec's third example scenario), an ML response carrying
  a given label, an environment in which every collaborator answers, an empty
  database, and variations of these with one field changed.
\<close>

definition zoneA :: jsval where
  "zoneA = JStr ''zone-A''"

definition sampleGases :: jsval where
  "sampleGases = JObj [(''methane'', JNum (Fin 150)), (''lpg'', JNum (Fin 100)),
                       (''carbonMonoxide'', JNum (Fin 75)), (''hydrogenSulfide'', JNum (Fin 8))]"

definition sampleBody :: requestBody where
  "sampleBody = \<lparr> clientID = zoneA, gases = sampleGases,
                   environmental = JObj [(''temperature'', JNum (Fin 25))] \<rparr>"

definition prediction :: "string \<Rightarrow> mlPrediction" where
  "prediction l =
     \<lparr> riskState = Some l, confidence = Some ''high'',
       ppmClass = Some \<lparr> overallRisk = Some l,
                         dominantGas = Some ''carbonMonoxide'',
                         gasRisks = JObj [(''carbonMonoxide'',
                                           JObj [(''ppm'', JNum (Fin 75)), (''risk'', JStr l)])] \<rparr>,
       anomalyDetection = JObj [(''risk'', JStr ''NORMAL''),
                                (''predictionError'', JNum (Fin 0.05)),
                                (''trend'', JStr ''stable'')],
       leakProbability = JNum (Fin 0.8),
       classificationMethod = JStr ''hybrid_ppm_lstm'',
       recommendedAction = JStr ''ventilate'' \<rparr>"

definition envOk :: "string \<Rightarrow> env" where
  "envOk l = \<lparr> BLOCKCHAIN_ENABLED = True, mlCall = MLResolved (Some (prediction l)),
               alertSave = True, ventilationUpdate = True, blockchainPost = True,
               readingSave = True, now = 0 \<rparr>"

definition emptyStore :: store where
  "emptyStore = \<lparr> readings = [], alerts = [], ventilation = Map.empty,
                  ventilationCalls = [], auditLog = [] \<rparr>"

definition bodyNegativeLpg :: requestBody where
  "bodyNegativeLpg =
     \<lparr> clientID = zoneA,
       gases = JObj [(''methane'', JNum (Fin 150)), (''lpg'', JNum (Fin (- 5))),
                     (''carbonMonoxide'', JNum (Fin 75)), (''hydrogenSulfide'', JNum (Fin 8))],
       environmental = JUndefined \<rparr>"

definition envMLDown :: env where
  "envMLDown = (envOk ''WARNING'')\<lparr> mlCall := MLRejected \<rparr>"

definition storeAuto :: store where
  "storeAuto = emptyStore\<lparr> ventilation :=
     [zoneA \<mapsto> \<lparr> isActive = True, mode = AUTO, triggeredBy = Some ''WARNING'' \<rparr>] \<rparr>"

definition envChainOff :: env where
  "envChainOff = (envOk ''WARNING'')\<lparr> BLOCKCHAIN_ENABLED := False \<rparr>"

definition envAlertDown :: env where
  "envAlertDown = (envOk ''WARNING'')\<lparr> alertSave := False \<rparr>"

definition envChainDown :: env where
  "envChainDown = (envOk ''CRITICAL'')\<lparr> blockchainPost := False \<rparr>"

definition bodyHotTemperature :: requestBody where
  "bodyHotTemperature =
     sampleBody\<lparr> environmental := JObj [(''temperature'', JStr ''hot'')] \<rparr>"

section \<open>Properties of the controller\<close>

subsection \<open>Auxiliary facts\<close>

lemmas sample_defs =
  zoneA_def sampleGases_def sampleBody_def prediction_def envOk_def emptyStore_def

lemmas handler_defs =
  processSensorReading_def classify_def decisionEngine_def alertStage_def
  logSensorInputThrows_def logMLResponseThrows_def gasRiskThrows_def
  ventilationStage_def auditStage_def createAlert_def triggerVentilation_def
  riskLevelOf_def RISK_HIERARCHY_def SEVERITY_MAP_def readingValid_def alertValid_def
  enumOk_def readingRiskStates_def confidenceValues_def alertRiskStates_def
  severityValues_def Let_def

lemma isValidGasReading_iff: "isValidGasReading v \<longleftrightarrow> (\<exists>x\<ge>0. v = JNum (Fin x))"
  by (cases v rule: isValidGasReading.cases) auto

lemma riskLevelOf_UNUSUAL: "riskLevelOf ''UNUSUAL'' = 2"
  by (simp add: riskLevelOf_def RISK_HIERARCHY_def)

lemma riskLevelOf_WARNING: "riskLevelOf ''WARNING'' = 4"
  by (simp add: riskLevelOf_def RISK_HIERARCHY_def)

lemma riskLevelOf_CRITICAL: "riskLevelOf ''CRITICAL'' = 5"
  by (simp add: riskLevelOf_def RISK_HIERARCHY_def)

lemma riskLevelOf_ALERT: "riskLevelOf ''ALERT'' = 3"
  by (simp add: riskLevelOf_def RISK_HIERARCHY_def)

lemma riskLevelOf_low: "riskLevelOf ''NORMAL'' = 0" "riskLevelOf ''LOW_ANOMALY'' = 1"
  by (simp_all add: riskLevelOf_def RISK_HIERARCHY_def)

lemma riskLevelOf_ge4: "4 \<le> riskLevelOf rs \<longleftrightarrow> rs = ''WARNING'' \<or> rs = ''CRITICAL''"
  by (simp add: riskLevelOf_def RISK_HIERARCHY_def)

lemma riskLevelOf_unknown: "rs \<notin> set readingRiskStates \<Longrightarrow> riskLevelOf rs = 0"
  by (simp add: readingRiskStates_def riskLevelOf_def RISK_HIERARCHY_def)

lemma severity_labels:
  "SEVERITY_MAP ''UNUSUAL'' = Some ''medium''"
  "SEVERITY_MAP ''ALERT'' = Some ''medium''"
  "SEVERITY_MAP ''WARNING'' = Some ''high''"
  "SEVERITY_MAP ''CRITICAL'' = Some ''critical''"
  by (simp_all add: SEVERITY_MAP_def)

text \<open>What each block of the decision engine does to the store.\<close>

lemma alertStage_Some:
  assumes "alertStage e cid gl ml rs s = Some (d, s1)" and "riskState ml = Some rs"
  shows "ventilation s1 = ventilation s" "ventilationCalls s1 = ventilationCalls s"
    "auditLog s1 = auditLog s" "readings s1 = readings s"
    "2 \<le> riskLevelOf rs \<Longrightarrow>
       \<exists>al. d = Some al \<and> alerts s1 = alerts s @ [al] \<and> alertRiskState al = rs \<and>
            severity al = (case SEVERITY_MAP rs of Some v \<Rightarrow> v | None \<Rightarrow> ''medium'')"
    "riskLevelOf rs < 2 \<Longrightarrow> d = None \<and> s1 = s"
  using assms
  by (auto simp: alertStage_def createAlert_def Let_def riskLevelOf_UNUSUAL
           split: if_splits option.splits)

lemma ventilationStage_Some:
  assumes "ventilationStage e cid rs s = Some (d, s1)"
  shows "alerts s1 = alerts s" "auditLog s1 = auditLog s" "readings s1 = readings s"
    "4 \<le> riskLevelOf rs \<Longrightarrow>
       d = Some \<lparr> isActive = True, mode = (if rs = ''CRITICAL'' then FORCED else AUTO),
                  triggeredBy = Some rs \<rparr> \<and>
       ventilation s1 = (ventilation s)(cid \<mapsto> the d) \<and>
       ventilationCalls s1 = ventilationCalls s @ [(cid, if rs = ''CRITICAL'' then FORCED else AUTO)]"
    "riskLevelOf rs < 4 \<Longrightarrow> d = None \<and> s1 = s"
  using assms
  by (auto simp: ventilationStage_def triggerVentilation_def Let_def riskLevelOf_WARNING
           split: if_splits option.splits)

lemma auditStage_eq:
  assumes "auditStage e cid ml rs d s = (posted, s1)"
  shows "alerts s1 = alerts s" "ventilation s1 = ventilation s"
    "ventilationCalls s1 = ventilationCalls s" "readings s1 = readings s"
    "posted \<longleftrightarrow> BLOCKCHAIN_ENABLED e \<and> blockchainPost e \<and> 4 \<le> riskLevelOf rs"
    "posted \<Longrightarrow> \<exists>ev. auditLog s1 = auditLog s @ [ev] \<and> eventClientID ev = cid \<and>
                      eventRiskState ev = rs"
    "\<not> posted \<Longrightarrow> s1 = s"
  using assms
  by (auto simp: auditStage_def riskLevelOf_WARNING split: if_splits)

text \<open>A 200 answer of the decision engine means that every block ran to its end.\<close>

lemma decisionEngine_200D:
  assumes "decisionEngine e cid gl envl ml rs s = (Response200 c a, s')"
  shows "\<exists>d1 s1 d2 s2 posted s3.
           alertStage e cid gl ml rs s = Some (d1, s1) \<and>
           ventilationStage e cid rs s1 = Some (d2, s2) \<and>
           auditStage e cid ml rs d1 s2 = (posted, s3) \<and>
           c = ml \<and>
           enumOk readingRiskStates (riskState ml) \<and>
           a = \<lparr> reportAlertCreated = (d1 \<noteq> None),
                 reportVentilationTriggered = (d2 \<noteq> None),
                 reportVentilationMode = map_option mode d2,
                 reportBlockchainLogged = posted \<rparr> \<and>
           alerts s' = alerts s3 \<and> ventilation s' = ventilation s3 \<and>
           ventilationCalls s' = ventilationCalls s3 \<and> auditLog s' = auditLog s3"
  using assms
  by (auto simp: decisionEngine_def Let_def readingValid_def
           split: option.splits prod.splits if_splits)

lemma process_valid:
  assumes "truthy (clientID body)"
    and "\<forall>g \<in> set gasNames. isValidGasReading (getProp (gases body) g)"
  shows "processSensorReading e body s =
         (if logSensorInputThrows (clientID body) (environmental body) then (Response500, s)
          else classify e (clientID body)
                 \<lparr> methane = numberOf (getProp (gases body) ''methane''),
                   lpg = numberOf (getProp (gases body) ''lpg''),
                   carbonMonoxide = numberOf (getProp (gases body) ''carbonMonoxide''),
                   hydrogenSulfide = numberOf (getProp (gases body) ''hydrogenSulfide'') \<rparr>
                 (environmental body) s)"
proof -
  have v: "isValidGasReading (getProp (gases body) ''methane'')"
      "isValidGasReading (getProp (gases body) ''lpg'')"
      "isValidGasReading (getProp (gases body) ''carbonMonoxide'')"
      "isValidGasReading (getProp (gases body) ''hydrogenSulfide'')"
    using assms(2) by (simp_all add: gasNames_def)
  have "truthy (gases body)"
    using v(1) by (cases "gases body") auto
  moreover have "getProp (gases body) g \<noteq> JUndefined"
    if "isValidGasReading (getProp (gases body) g)" for g
    using that by auto
  ultimately show ?thesis
    using assms(1) v by (simp add: processSensorReading_def Let_def)
qed

lemma process_200D:
  assumes "processSensorReading e body s = (Response200 c a, s')"
  shows "\<exists>rs gl. mlCall e = MLResolved (Some c) \<and> riskState c = Some rs \<and> rs \<noteq> [] \<and>
                 decisionEngine e (clientID body) gl (environmental body) c rs s =
                   (Response200 c a, s')"
proof -
  from assms obtain gl where
    "classify e (clientID body) gl (environmental body) s = (Response200 c a, s')"
    by (auto simp: processSensorReading_def Let_def split: if_splits)
  then obtain ml rs where m: "mlCall e = MLResolved (Some ml)" "riskState ml = Some rs" "rs \<noteq> []"
      and de: "decisionEngine e (clientID body) gl (environmental body) ml rs s =
                 (Response200 c a, s')"
    by (auto simp: classify_def split: mlOutcome.splits option.splits if_splits)
  from decisionEngine_200D [OF de] have "c = ml" by blast
  with m de show ?thesis by blast
qed

text \<open>The three stages seen from a 200 answer of the handler.\<close>

lemma process_200_stages:
  assumes "processSensorReading e body s = (Response200 ml a, s')"
  shows "\<exists>rs gl d1 s1 d2 s2 posted s3.
           riskState ml = Some rs \<and> rs \<in> set readingRiskStates \<and>
           alertStage e (clientID body) gl ml rs s = Some (d1, s1) \<and>
           ventilationStage e (clientID body) rs s1 = Some (d2, s2) \<and>
           auditStage e (clientID body) ml rs d1 s2 = (posted, s3) \<and>
           reportBlockchainLogged a = posted \<and>
           alerts s' = alerts s3 \<and> ventilation s' = ventilation s3 \<and>
           ventilationCalls s' = ventilationCalls s3 \<and> auditLog s' = auditLog s3"
proof -
  from process_200D [OF assms] obtain rs gl where
    rs: "riskState ml = Some rs" and
    de: "decisionEngine e (clientID body) gl (environmental body) ml rs s =
           (Response200 ml a, s')"
    by blast
  from decisionEngine_200D [OF de] rs show ?thesis
    by (fastforce simp: enumOk_def)
qed

subsection \<open>Input validation\<close>

text \<open>
  Claim C2. A body that lacks the zone identifier, or in which one of the four gas
  concentrations is missing or is not a finite non-negative number, is answered with
  status 400 and the store is left exactly as it was: no reading, alert, ventilation
  state or audit event is written. (A body without \<^verbatim>\<open>gases\<close> has no gas property
  either: \<^const>\<open>getProp\<close> of \<^const>\<open>JUndefined\<close> is \<^const>\<open>JUndefined\<close>.)
\<close>

theorem invalid_input_rejected_without_mutation:
  assumes "clientID body = JUndefined \<or>
           (\<exists>g \<in> set gasNames. \<not> (\<exists>x\<ge>0. getProp (gases body) g = JNum (Fin x)))"
  shows "\<exists>msg. processSensorReading e body s = (Response400 msg, s) \<and>
               status (Response400 msg) = 400"
proof -
  from assms have "\<not> truthy (clientID body) \<or>
      \<not> isValidGasReading (getProp (gases body) ''methane'') \<or>
      \<not> isValidGasReading (getProp (gases body) ''lpg'') \<or>
      \<not> isValidGasReading (getProp (gases body) ''carbonMonoxide'') \<or>
      \<not> isValidGasReading (getProp (gases body) ''hydrogenSulfide'')"
    by (auto simp: gasNames_def isValidGasReading_iff)
  then show ?thesis
    unfolding processSensorReading_def Let_def by auto
qed

theorem invalid_input_rejected_witness:
  "(\<exists>g \<in> set gasNames. \<not> (\<exists>x\<ge>0. getProp (gases bodyNegativeLpg) g = JNum (Fin x))) \<and>
   (\<exists>msg. processSensorReading (envOk ''CRITICAL'') bodyNegativeLpg emptyStore =
            (Response400 msg, emptyStore))"
proof -
  have h: "\<exists>g \<in> set gasNames. \<not> (\<exists>x\<ge>0. getProp (gases bodyNegativeLpg) g = JNum (Fin x))"
    by (simp add: gasNames_def bodyNegativeLpg_def)
  then show ?thesis
    using invalid_input_rejected_without_mutation
            [of bodyNegativeLpg "envOk ''CRITICAL''" emptyStore]
    by blast
qed

subsection \<open>Unknown risk labels\<close>

text \<open>
  Claim C3. When the ML response carries a label outside the six risk states, the
  reading is rejected and nothing is derived from the label: the rank falls back to 0,
  so no alert, ventilation update or audit event is made, and saving the reading
  fails on the \<^verbatim>\<open>enum\<close> of \<^verbatim>\<open>mlPrediction.riskState\<close>, which answers 500 (503 when the
  label is absent or empty). The store is unchanged and the answer is never 200.
\<close>

theorem unknown_label_fails_closed:
  assumes "mlCall e = MLResolved (Some ml)"
    and "riskState ml \<notin> Some ` set readingRiskStates"
  shows "snd (processSensorReading e body s) = s \<and>
         status (fst (processSensorReading e body s)) \<in> {400, 500, 503}"
proof (cases "riskState ml")
  case None
  with assms(1) show ?thesis
    by (auto simp: processSensorReading_def classify_def Let_def)
next
  case (Some rs)
  with assms(2) have un: "rs \<notin> set readingRiskStates" by auto
  have de: "decisionEngine e cid gl envl ml rs s = (Response500, s)" for cid gl envl
    using un Some riskLevelOf_unknown [OF un]
    by (simp add: decisionEngine_def alertStage_def ventilationStage_def auditStage_def
                  Let_def riskLevelOf_UNUSUAL riskLevelOf_WARNING readingValid_def enumOk_def)
  show ?thesis
    using assms(1) Some de
    by (auto simp: processSensorReading_def classify_def Let_def)
qed

theorem unknown_label_fails_closed_witness:
  "mlCall (envOk ''UNKNOWN'') = MLResolved (Some (prediction ''UNKNOWN'')) \<and>
   riskState (prediction ''UNKNOWN'') \<notin> Some ` set readingRiskStates \<and>
   processSensorReading (envOk ''UNKNOWN'') sampleBody emptyStore = (Response500, emptyStore)"
proof -
  have a: "mlCall (envOk ''UNKNOWN'') = MLResolved (Some (prediction ''UNKNOWN''))"
    by (simp add: envOk_def)
  have b: "riskState (prediction ''UNKNOWN'') \<notin> Some ` set readingRiskStates"
    by (simp add: prediction_def readingRiskStates_def image_iff)
  have c: "fst (processSensorReading (envOk ''UNKNOWN'') sampleBody emptyStore) = Response500"
    by (simp add: sample_defs handler_defs)
  from unknown_label_fails_closed [OF a b, of sampleBody emptyStore] c a b
  show ?thesis by (metis prod.collapse)
qed

subsection \<open>ML service failure\<close>

text \<open>
  Claim C4, as stated: when the predictor backend is unreachable the entry point still
  returns a classification, fused from the threshold classifier alone with confidence
  low. The handler has no classifier of its own; a rejected ML call is answered with
  503 and no classification. The body below is well formed and the ML call is
  rejected. (The legacy client does not fail, but what it returns is the label
  \<^verbatim>\<open>UNKNOWN\<close> with no confidence and no threshold classification.)
\<close>

theorem predictor_unavailable_counterexample:
  "truthy (clientID sampleBody) \<and>
   isValidGasReading (getProp (gases sampleBody) ''methane'') \<and>
   isValidGasReading (getProp (gases sampleBody) ''lpg'') \<and>
   isValidGasReading (getProp (gases sampleBody) ''carbonMonoxide'') \<and>
   isValidGasReading (getProp (gases sampleBody) ''hydrogenSulfide'') \<and>
   mlCall envMLDown = MLRejected \<and>
   processSensorReading envMLDown sampleBody emptyStore = (Response503, emptyStore) \<and>
   status (fst (processSensorReading envMLDown sampleBody emptyStore)) \<noteq> 200 \<and>
   getProp (getRiskPrediction None) ''riskState'' = JStr ''UNKNOWN'' \<and>
   getProp (getRiskPrediction None) ''confidence'' = JUndefined \<and>
   getProp (getRiskPrediction None) ''ppmClassification'' = JUndefined"
  by (simp add: envMLDown_def sample_defs handler_defs getRiskPrediction_def)

text \<open>
  Claim C4, amended. For every reading that passes the input validation and whose ML
  call is rejected (unreachable, timed out), the handler returns no classification and
  leaves the store unchanged: it answers 503, or 500 when logging the incoming
  reading throws (a \<^verbatim>\<open>clientID\<close> that cannot be converted to a string, or a
  temperature, humidity or pressure that is present and not a number).
\<close>

theorem predictor_unavailable_answers_503:
  assumes "truthy (clientID body)"
    and "\<forall>g \<in> set gasNames. isValidGasReading (getProp (gases body) g)"
    and "mlCall e = MLRejected"
  shows "processSensorReading e body s =
         (if logSensorInputThrows (clientID body) (environmental body)
          then Response500 else Response503, s)"
proof -
  have "processSensorReading e body s =
         (if logSensorInputThrows (clientID body) (environmental body) then (Response500, s)
          else classify e (clientID body)
                 \<lparr> methane = numberOf (getProp (gases body) ''methane''),
                   lpg = numberOf (getProp (gases body) ''lpg''),
                   carbonMonoxide = numberOf (getProp (gases body) ''carbonMonoxide''),
                   hydrogenSulfide = numberOf (getProp (gases body) ''hydrogenSulfide'') \<rparr>
                 (environmental body) s)"
    using assms(1,2) by (rule process_valid)
  with assms(3) show ?thesis by (simp add: classify_def)
qed

theorem predictor_unavailable_answers_503_witness:
  "truthy (clientID sampleBody) \<and>
   isValidGasReading (getProp (gases sampleBody) ''methane'') \<and>
   isValidGasReading (getProp (gases sampleBody) ''lpg'') \<and>
   isValidGasReading (getProp (gases sampleBody) ''carbonMonoxide'') \<and>
   isValidGasReading (getProp (gases sampleBody) ''hydrogenSulfide'') \<and>
   mlCall envMLDown = MLRejected \<and>
   processSensorReading envMLDown sampleBody emptyStore = (Response503, emptyStore) \<and>
   processSensorReading envMLDown bodyHotTemperature emptyStore = (Response500, emptyStore)"
proof -
  have a: "truthy (clientID sampleBody)" "truthy (clientID bodyHotTemperature)"
    by (simp_all add: bodyHotTemperature_def sample_defs)
  have b: "\<forall>g \<in> set gasNames. isValidGasReading (getProp (gases sampleBody) g)"
    "\<forall>g \<in> set gasNames. isValidGasReading (getProp (gases bodyHotTemperature) g)"
    by (simp_all add: bodyHotTemperature_def sample_defs gasNames_def)
  have c: "mlCall envMLDown = MLRejected" by (simp add: envMLDown_def envOk_def)
  have d: "\<not> logSensorInputThrows (clientID sampleBody) (environmental sampleBody)"
    "logSensorInputThrows (clientID bodyHotTemperature) (environmental bodyHotTemperature)"
    by (simp_all add: bodyHotTemperature_def sample_defs logSensorInputThrows_def)
  show ?thesis
    using predictor_unavailable_answers_503 [OF a(1) b(1) c, of emptyStore]
      predictor_unavailable_answers_503 [OF a(2) b(2) c, of emptyStore] a b c d
    by (simp add: gasNames_def)
qed

subsection \<open>Alerts\<close>

text \<open>
  Claim C5. For every reading answered with 200, exactly one alert is appended to the
  alerts exactly when the rank of the label is at least that of UNUSUAL; its severity
  is medium for UNUSUAL and ALERT, high for WARNING and critical for CRITICAL; for
  NORMAL and LOW_ANOMALY the alerts are unchanged.
\<close>

theorem alert_iff_rank_at_least_unusual:
  assumes "processSensorReading e body s = (Response200 ml a, s')"
  shows "\<exists>rs. riskState ml = Some rs \<and> rs \<in> set readingRiskStates \<and>
           ((\<exists>al. alerts s' = alerts s @ [al]) \<longleftrightarrow> riskLevelOf ''UNUSUAL'' \<le> riskLevelOf rs) \<and>
           (rs = ''NORMAL'' \<or> rs = ''LOW_ANOMALY'' \<longrightarrow> alerts s' = alerts s) \<and>
           (rs = ''UNUSUAL'' \<or> rs = ''ALERT'' \<longrightarrow>
              (\<exists>al. alerts s' = alerts s @ [al] \<and> severity al = ''medium'')) \<and>
           (rs = ''WARNING'' \<longrightarrow> (\<exists>al. alerts s' = alerts s @ [al] \<and> severity al = ''high'')) \<and>
           (rs = ''CRITICAL'' \<longrightarrow>
              (\<exists>al. alerts s' = alerts s @ [al] \<and> severity al = ''critical''))"
proof -
  from process_200_stages [OF assms] obtain rs gl d1 s1 d2 s2 posted s3 where
    rs: "riskState ml = Some rs" and lab: "rs \<in> set readingRiskStates" and
    st1: "alertStage e (clientID body) gl ml rs s = Some (d1, s1)" and
    st2: "ventilationStage e (clientID body) rs s1 = Some (d2, s2)" and
    st3: "auditStage e (clientID body) ml rs d1 s2 = (posted, s3)" and
    fin: "alerts s' = alerts s3"
    by blast
  have same: "alerts s' = alerts s1"
    using fin ventilationStage_Some(1) [OF st2] auditStage_eq(1) [OF st3] by simp
  have hi: "\<exists>al. alerts s' = alerts s @ [al] \<and>
                 severity al = (case SEVERITY_MAP rs of Some v \<Rightarrow> v | None \<Rightarrow> ''medium'')"
    if "2 \<le> riskLevelOf rs"
    using alertStage_Some(5) [OF st1 rs that] same by auto
  have lo: "alerts s' = alerts s" if "riskLevelOf rs < 2"
    using alertStage_Some(6) [OF st1 rs that] same by simp
  have iff: "(\<exists>al. alerts s' = alerts s @ [al]) \<longleftrightarrow> riskLevelOf ''UNUSUAL'' \<le> riskLevelOf rs"
  proof (cases "2 \<le> riskLevelOf rs")
    case True
    with hi show ?thesis by (auto simp: riskLevelOf_UNUSUAL)
  next
    case False
    with lo show ?thesis by (simp add: riskLevelOf_UNUSUAL)
  qed
  have c1: "rs = ''NORMAL'' \<or> rs = ''LOW_ANOMALY'' \<longrightarrow> alerts s' = alerts s"
    using lo by (auto simp: riskLevelOf_low)
  have c2: "rs = ''UNUSUAL'' \<or> rs = ''ALERT'' \<longrightarrow>
              (\<exists>al. alerts s' = alerts s @ [al] \<and> severity al = ''medium'')"
    using hi by (auto simp: riskLevelOf_UNUSUAL riskLevelOf_ALERT severity_labels)
  have c3: "rs = ''WARNING'' \<longrightarrow> (\<exists>al. alerts s' = alerts s @ [al] \<and> severity al = ''high'')"
    using hi by (auto simp: riskLevelOf_WARNING severity_labels)
  have c4: "rs = ''CRITICAL'' \<longrightarrow>
              (\<exists>al. alerts s' = alerts s @ [al] \<and> severity al = ''critical'')"
    using hi by (auto simp: riskLevelOf_CRITICAL severity_labels)
  show ?thesis
    by (rule exI [of _ rs]) (intro conjI rs lab iff c1 c2 c3 c4)
qed

theorem alert_iff_rank_at_least_unusual_witness:
  "\<exists>a s' al. processSensorReading (envOk ''ALERT'') sampleBody emptyStore =
                (Response200 (prediction ''ALERT'') a, s') \<and>
              alerts s' = alerts emptyStore @ [al] \<and> severity al = ''medium''"
proof -
  obtain a s' where
    ev: "processSensorReading (envOk ''ALERT'') sampleBody emptyStore =
           (Response200 (prediction ''ALERT'') a, s')"
    by (simp add: sample_defs handler_defs)
  from alert_iff_rank_at_least_unusual [OF ev]
  have "\<exists>al. alerts s' = alerts emptyStore @ [al] \<and> severity al = ''medium''"
    by (auto simp: prediction_def)
  with ev show ?thesis by blast
qed


subsection \<open>Ventilation\<close>

text \<open>
  Claim C6, as stated: the ventilation actuator is never invoked for a zone that is
  already in the target mode. Zone A below is already in mode AUTO; a WARNING reading
  is answered with 200 and one more ventilation update (again to AUTO) is made.
\<close>

theorem ventilation_repeated_in_target_mode_counterexample:
  "map_option mode (ventilation storeAuto zoneA) = Some AUTO \<and>
   status (fst (processSensorReading (envOk ''WARNING'') sampleBody storeAuto)) = 200 \<and>
   ventilationCalls (snd (processSensorReading (envOk ''WARNING'') sampleBody storeAuto)) =
     ventilationCalls storeAuto @ [(zoneA, AUTO)] \<and>
   map_option mode
     (ventilation (snd (processSensorReading (envOk ''WARNING'') sampleBody storeAuto)) zoneA) =
     Some AUTO"
  by (simp add: storeAuto_def sample_defs handler_defs)

text \<open>
  Claim C6, amended. For every reading answered with 200, the ventilation update is
  made exactly once when the rank is at least WARNING, also when the zone is already
  in the target mode: with mode FORCED for CRITICAL, and with mode AUTO for WARNING
  in a zone that is not in mode FORCED. For any rank below WARNING no update is made
  and the ventilation collection is unchanged.
\<close>

theorem ventilation_update_for_every_high_reading:
  assumes "processSensorReading e body s = (Response200 ml a, s')"
  shows "\<exists>rs. riskState ml = Some rs \<and>
           (rs = ''WARNING'' \<and> map_option mode (ventilation s (clientID body)) \<noteq> Some FORCED \<longrightarrow>
              ventilationCalls s' = ventilationCalls s @ [(clientID body, AUTO)] \<and>
              map_option mode (ventilation s' (clientID body)) = Some AUTO) \<and>
           (rs = ''CRITICAL'' \<longrightarrow>
              ventilationCalls s' = ventilationCalls s @ [(clientID body, FORCED)] \<and>
              map_option mode (ventilation s' (clientID body)) = Some FORCED) \<and>
           (riskLevelOf rs < riskLevelOf ''WARNING'' \<longrightarrow>
              ventilationCalls s' = ventilationCalls s \<and> ventilation s' = ventilation s)"
proof -
  from process_200_stages [OF assms] obtain rs gl d1 s1 d2 s2 posted s3 where
    rs: "riskState ml = Some rs" and
    st1: "alertStage e (clientID body) gl ml rs s = Some (d1, s1)" and
    st2: "ventilationStage e (clientID body) rs s1 = Some (d2, s2)" and
    st3: "auditStage e (clientID body) ml rs d1 s2 = (posted, s3)" and
    fin: "ventilation s' = ventilation s3" "ventilationCalls s' = ventilationCalls s3"
    by blast
  have pre: "ventilation s1 = ventilation s" "ventilationCalls s1 = ventilationCalls s"
    using alertStage_Some(1,2) [OF st1 rs] by simp_all
  have post: "ventilation s' = ventilation s2" "ventilationCalls s' = ventilationCalls s2"
    using fin auditStage_eq(2,3) [OF st3] by simp_all
  have hi: "ventilationCalls s' =
              ventilationCalls s @ [(clientID body, if rs = ''CRITICAL'' then FORCED else AUTO)] \<and>
            map_option mode (ventilation s' (clientID body)) =
              Some (if rs = ''CRITICAL'' then FORCED else AUTO)"
    if "4 \<le> riskLevelOf rs"
    using ventilationStage_Some(4) [OF st2 that] pre post by auto
  have lo: "ventilationCalls s' = ventilationCalls s \<and> ventilation s' = ventilation s"
    if "riskLevelOf rs < 4"
    using ventilationStage_Some(5) [OF st2 that] pre post by simp
  have c1: "rs = ''WARNING'' \<and> map_option mode (ventilation s (clientID body)) \<noteq> Some FORCED \<longrightarrow>
              ventilationCalls s' = ventilationCalls s @ [(clientID body, AUTO)] \<and>
              map_option mode (ventilation s' (clientID body)) = Some AUTO"
    using hi by (auto simp: riskLevelOf_WARNING)
  have c2: "rs = ''CRITICAL'' \<longrightarrow>
              ventilationCalls s' = ventilationCalls s @ [(clientID body, FORCED)] \<and>
              map_option mode (ventilation s' (clientID body)) = Some FORCED"
    using hi by (auto simp: riskLevelOf_CRITICAL)
  have c3: "riskLevelOf rs < riskLevelOf ''WARNING'' \<longrightarrow>
              ventilationCalls s' = ventilationCalls s \<and> ventilation s' = ventilation s"
    using lo by (simp add: riskLevelOf_WARNING)
  show ?thesis
    by (rule exI [of _ rs]) (intro conjI rs c1 c2 c3)
qed

theorem ventilation_update_for_every_high_reading_witness:
  "map_option mode (ventilation storeAuto (clientID sampleBody)) \<noteq> Some FORCED \<and>
   (\<exists>a s'. processSensorReading (envOk ''WARNING'') sampleBody storeAuto =
             (Response200 (prediction ''WARNING'') a, s') \<and>
           ventilationCalls s' = ventilationCalls storeAuto @ [(clientID sampleBody, AUTO)])"
proof -
  obtain a s' where
    ev: "processSensorReading (envOk ''WARNING'') sampleBody storeAuto =
           (Response200 (prediction ''WARNING'') a, s')"
    by (simp add: storeAuto_def sample_defs handler_defs)
  have nf: "map_option mode (ventilation storeAuto (clientID sampleBody)) \<noteq> Some FORCED"
    by (simp add: storeAuto_def sample_defs)
  from ventilation_update_for_every_high_reading [OF ev] nf
  have "ventilationCalls s' = ventilationCalls storeAuto @ [(clientID sampleBody, AUTO)]"
    by (auto simp: prediction_def)
  with ev nf show ?thesis by blast
qed

text \<open>
  Claim C1. The claim says that a zone whose ventilation mode is FORCED stays FORCED
  whatever reading is processed next. In the handler a CRITICAL reading puts zone A in
  mode FORCED and a following WARNING reading, answered with 200, sets it to AUTO:
  \<^verbatim>\<open>triggerVentilation\<close> overwrites the stored mode without reading it, although the
  VentilationStatus schema documents FORCED as the mode that cannot be overridden.
\<close>

theorem forced_mode_downgraded_by_warning_reading:
  "map_option mode
     (ventilation (processAll [(envOk ''CRITICAL'', sampleBody)] emptyStore) zoneA) = Some FORCED \<and>
   status (fst (processSensorReading (envOk ''WARNING'') sampleBody
                  (processAll [(envOk ''CRITICAL'', sampleBody)] emptyStore))) = 200 \<and>
   map_option mode
     (ventilation (processAll [(envOk ''CRITICAL'', sampleBody), (envOk ''WARNING'', sampleBody)]
                     emptyStore) zoneA) = Some AUTO"
  by (simp add: sample_defs handler_defs)

theorem forced_mode_downgraded_by_warning_reading_witness:
  "\<exists>s. map_option mode (ventilation s zoneA) = Some FORCED \<and>
       status (fst (processSensorReading (envOk ''WARNING'') sampleBody s)) = 200 \<and>
       map_option mode
         (ventilation (snd (processSensorReading (envOk ''WARNING'') sampleBody s)) zoneA) =
         Some AUTO"
  using forced_mode_downgraded_by_warning_reading
  by (intro exI [of _ "processAll [(envOk ''CRITICAL'', sampleBody)] emptyStore"]) simp

subsection \<open>Audit events\<close>

text \<open>
  Claim C7, as stated: every reading of rank at least WARNING that is answered with 200
  emits exactly one audit event. With \<^verbatim>\<open>BLOCKCHAIN_ENABLED\<close> off (its value unless the
  environment variable is the string \<^verbatim>\<open>true\<close>) a WARNING reading is answered with 200
  and no audit event is emitted.
\<close>

theorem audit_event_missing_counterexample:
  "riskLevelOf ''WARNING'' = 4 \<and>
   status (fst (processSensorReading envChainOff sampleBody emptyStore)) = 200 \<and>
   auditLog (snd (processSensorReading envChainOff sampleBody emptyStore)) = []"
  by (simp add: envChainOff_def sample_defs handler_defs)

text \<open>
  Claim C7, amended. For every reading answered with 200 whose rank is at least
  WARNING, exactly one audit event is logged when \<^verbatim>\<open>BLOCKCHAIN_ENABLED\<close> is on and the
  post to the blockchain service succeeds, and none otherwise (the answer then reports
  \<^verbatim>\<open>blockchainLogged: false\<close>); no audit event is logged for a rank below WARNING.
\<close>

theorem audit_event_iff_enabled_and_high:
  assumes "processSensorReading e body s = (Response200 ml a, s')"
  shows "\<exists>rs. riskState ml = Some rs \<and>
           (riskLevelOf ''WARNING'' \<le> riskLevelOf rs \<and> BLOCKCHAIN_ENABLED e \<and> blockchainPost e \<longrightarrow>
              (\<exists>ev. auditLog s' = auditLog s @ [ev] \<and> eventRiskState ev = rs) \<and>
              reportBlockchainLogged a) \<and>
           (riskLevelOf ''WARNING'' \<le> riskLevelOf rs \<and>
            \<not> (BLOCKCHAIN_ENABLED e \<and> blockchainPost e) \<longrightarrow>
              auditLog s' = auditLog s \<and> \<not> reportBlockchainLogged a) \<and>
           (riskLevelOf rs < riskLevelOf ''WARNING'' \<longrightarrow>
              auditLog s' = auditLog s \<and> \<not> reportBlockchainLogged a)"
proof -
  from process_200_stages [OF assms] obtain rs gl d1 s1 d2 s2 posted s3 where
    rs: "riskState ml = Some rs" and
    st1: "alertStage e (clientID body) gl ml rs s = Some (d1, s1)" and
    st2: "ventilationStage e (clientID body) rs s1 = Some (d2, s2)" and
    st3: "auditStage e (clientID body) ml rs d1 s2 = (posted, s3)" and
    flag: "reportBlockchainLogged a = posted" and
    fin: "auditLog s' = auditLog s3"
    by blast
  have pre: "auditLog s2 = auditLog s"
    using alertStage_Some(3) [OF st1 rs] ventilationStage_Some(2) [OF st2] by simp
  note p = auditStage_eq(5) [OF st3]
  have yes: "(\<exists>ev. auditLog s' = auditLog s @ [ev] \<and> eventRiskState ev = rs) \<and>
             reportBlockchainLogged a" if "posted"
    using auditStage_eq(6) [OF st3 that] that flag fin pre by auto
  have no: "auditLog s' = auditLog s \<and> \<not> reportBlockchainLogged a" if "\<not> posted"
    using auditStage_eq(7) [OF st3 that] that flag fin pre by simp
  have c1: "riskLevelOf ''WARNING'' \<le> riskLevelOf rs \<and> BLOCKCHAIN_ENABLED e \<and> blockchainPost e \<longrightarrow>
              (\<exists>ev. auditLog s' = auditLog s @ [ev] \<and> eventRiskState ev = rs) \<and>
              reportBlockchainLogged a"
    using yes p by (simp add: riskLevelOf_WARNING)
  have c2: "riskLevelOf ''WARNING'' \<le> riskLevelOf rs \<and>
            \<not> (BLOCKCHAIN_ENABLED e \<and> blockchainPost e) \<longrightarrow>
              auditLog s' = auditLog s \<and> \<not> reportBlockchainLogged a"
    using no p by (auto simp: riskLevelOf_WARNING)
  have c3: "riskLevelOf rs < riskLevelOf ''WARNING'' \<longrightarrow>
              auditLog s' = auditLog s \<and> \<not> reportBlockchainLogged a"
    using no p by (simp add: riskLevelOf_WARNING)
  show ?thesis
    by (rule exI [of _ rs]) (intro conjI rs c1 c2 c3)
qed

theorem audit_event_iff_enabled_and_high_witness:
  "\<exists>a s' ev. processSensorReading (envOk ''CRITICAL'') sampleBody emptyStore =
                (Response200 (prediction ''CRITICAL'') a, s') \<and>
              auditLog s' = auditLog emptyStore @ [ev] \<and> eventRiskState ev = ''CRITICAL'' \<and>
              reportBlockchainLogged a"
proof -
  obtain a s' where
    ev: "processSensorReading (envOk ''CRITICAL'') sampleBody emptyStore =
           (Response200 (prediction ''CRITICAL'') a, s')"
    by (simp add: sample_defs handler_defs)
  have en: "BLOCKCHAIN_ENABLED (envOk ''CRITICAL'')" "blockchainPost (envOk ''CRITICAL'')"
    by (simp_all add: envOk_def)
  from audit_event_iff_enabled_and_high [OF ev] en
  have "(\<exists>ev. auditLog s' = auditLog emptyStore @ [ev] \<and> eventRiskState ev = ''CRITICAL'') \<and>
        reportBlockchainLogged a"
    by (auto simp: prediction_def riskLevelOf_WARNING riskLevelOf_CRITICAL)
  with ev show ?thesis by blast
qed

subsection \<open>Collaborator failures\<close>

text \<open>
  Claim C9, as stated: when the alert sink or the audit sink fails, the ventilation
  transition still commits and the failure is reported as a flag in the returned
  actions. The alert is saved before the ventilation update and its failure is not
  caught locally: with a failing alert save a WARNING reading is answered with 500,
  which carries no actions, and the zone's ventilation state is never written.
\<close>

theorem alert_failure_aborts_counterexample:
  "processSensorReading envAlertDown sampleBody emptyStore = (Response500, emptyStore) \<and>
   ventilation (snd (processSensorReading envAlertDown sampleBody emptyStore)) zoneA = None \<and>
   ventilationCalls (snd (processSensorReading envAlertDown sampleBody emptyStore)) = []"
  by (simp add: envAlertDown_def sample_defs handler_defs)

text \<open>
  Claim C9, amended. For every reading that passes the input validation, whose
  request and ML response the logger can format, and whose rank is at least WARNING
  (a WARNING reading in a zone that is not in mode FORCED, or a CRITICAL reading): if
  the audit sink is enabled and the post to it fails while the database calls succeed,
  the zone's ventilation update is committed, no audit event is logged, and the
  answer is 200 with \<^verbatim>\<open>ventilationTriggered\<close> true and \<^verbatim>\<open>blockchainLogged\<close> false.
\<close>

theorem audit_failure_keeps_ventilation_and_is_flagged:
  assumes "truthy (clientID body)" and "castsToString (clientID body)"
    and "\<forall>g \<in> set gasNames. isValidGasReading (getProp (gases body) g)"
    and "\<not> logSensorInputThrows (clientID body) (environmental body)"
    and "mlCall e = MLResolved (Some ml)"
    and "riskState ml = Some rs"
    and "rs = ''WARNING'' \<and> map_option mode (ventilation s (clientID body)) \<noteq> Some FORCED \<or>
         rs = ''CRITICAL''"
    and "ppmClass ml \<noteq> None" and "\<not> logMLResponseThrows ml"
    and "enumOk confidenceValues (confidence ml)"
    and "alertSave e" and "ventilationUpdate e" and "readingSave e"
    and "BLOCKCHAIN_ENABLED e" and "\<not> blockchainPost e"
  shows "\<exists>a s'. processSensorReading e body s = (Response200 ml a, s') \<and>
           reportVentilationTriggered a \<and> \<not> reportBlockchainLogged a \<and>
           map_option mode (ventilation s' (clientID body)) =
             Some (if rs = ''CRITICAL'' then FORCED else AUTO) \<and>
           auditLog s' = auditLog s"
proof -
  let ?gl = "\<lparr> methane = numberOf (getProp (gases body) ''methane''),
               lpg = numberOf (getProp (gases body) ''lpg''),
               carbonMonoxide = numberOf (getProp (gases body) ''carbonMonoxide''),
               hydrogenSulfide = numberOf (getProp (gases body) ''hydrogenSulfide'') \<rparr>"
  have ne: "rs \<noteq> []" using assms(7) by auto
  have "processSensorReading e body s = classify e (clientID body) ?gl (environmental body) s"
    using process_valid [OF assms(1,3), of e s] assms(4) by simp
  also have "\<dots> = decisionEngine e (clientID body) ?gl (environmental body) ml rs s"
    using assms(5,6,8,9) ne by (auto simp: classify_def)
  finally have eq: "processSensorReading e body s =
                      decisionEngine e (clientID body) ?gl (environmental body) ml rs s" .
  from assms(7) have "rs = ''WARNING'' \<or> rs = ''CRITICAL''" by blast
  then show ?thesis
  proof
    assume w: "rs = ''WARNING''"
    show ?thesis
      unfolding eq using assms(2,6,10-15) w
      by (simp add: decisionEngine_def alertStage_def ventilationStage_def auditStage_def
                    createAlert_def triggerVentilation_def alertValid_def readingValid_def
                    enumOk_def readingRiskStates_def alertRiskStates_def severityValues_def
                    severity_labels riskLevelOf_WARNING riskLevelOf_UNUSUAL Let_def)
  next
    assume c: "rs = ''CRITICAL''"
    show ?thesis
      unfolding eq using assms(2,6,10-15) c
      by (simp add: decisionEngine_def alertStage_def ventilationStage_def auditStage_def
                    createAlert_def triggerVentilation_def alertValid_def readingValid_def
                    enumOk_def readingRiskStates_def alertRiskStates_def severityValues_def
                    severity_labels riskLevelOf_WARNING riskLevelOf_UNUSUAL riskLevelOf_CRITICAL
                    Let_def)
  qed
qed

theorem audit_failure_keeps_ventilation_and_is_flagged_witness:
  "\<exists>a s'. processSensorReading envChainDown sampleBody emptyStore =
             (Response200 (prediction ''CRITICAL'') a, s') \<and>
           reportVentilationTriggered a \<and> \<not> reportBlockchainLogged a \<and>
           map_option mode (ventilation s' (clientID sampleBody)) = Some FORCED \<and>
           auditLog s' = auditLog emptyStore"
proof -
  have h: "truthy (clientID sampleBody)" "castsToString (clientID sampleBody)"
    "\<forall>g \<in> set gasNames. isValidGasReading (getProp (gases sampleBody) g)"
    "\<not> logSensorInputThrows (clientID sampleBody) (environmental sampleBody)"
    "mlCall envChainDown = MLResolved (Some (prediction ''CRITICAL''))"
    "riskState (prediction ''CRITICAL'') = Some ''CRITICAL''"
    "''CRITICAL'' = ''WARNING'' \<and>
       map_option mode (ventilation emptyStore (clientID sampleBody)) \<noteq> Some FORCED \<or>
     ''CRITICAL'' = ''CRITICAL''"
    "ppmClass (prediction ''CRITICAL'') \<noteq> None"
    "\<not> logMLResponseThrows (prediction ''CRITICAL'')"
    "enumOk confidenceValues (confidence (prediction ''CRITICAL''))"
    "alertSave envChainDown" "ventilationUpdate envChainDown" "readingSave envChainDown"
    "BLOCKCHAIN_ENABLED envChainDown" "\<not> blockchainPost envChainDown"
    by (simp_all add: envChainDown_def sample_defs gasNames_def enumOk_def confidenceValues_def
                      logSensorInputThrows_def logMLResponseThrows_def gasRiskThrows_def)
  from audit_failure_keeps_ventilation_and_is_flagged [OF h]
  show ?thesis by simp
qed

subsection \<open>Fusion\<close>

text \<open>
  Claim C8. For every pair of a threshold classification and an anomaly
  classification, the rank of the fused risk level is the maximum of the two input
  ranks under the order NORMAL(0) < LOW_ANOMALY(1) < UNUSUAL(2) < ALERT(3) <
  WARNING(4) < CRITICAL(5); the fused level is never below either input.
\<close>

theorem fuse_is_maximum:
  "map rank [NORMAL, LOW_ANOMALY, UNUSUAL, ALERT, WARNING, CRITICAL] = [0, 1, 2, 3, 4, 5] \<and>
   rank (fusedRisk (Fuse t (Some a))) = max (rank (thresholdRisk t)) (rank (anomalyRisk a)) \<and>
   rank (thresholdRisk t) \<le> rank (fusedRisk (Fuse t (Some a))) \<and>
   rank (anomalyRisk a) \<le> rank (fusedRisk (Fuse t (Some a))) \<and>
   (fusedRisk (Fuse t (Some a)) = thresholdRisk t \<or> fusedRisk (Fuse t (Some a)) = anomalyRisk a)"
  by (simp add: Fuse_def Let_def max_def)

theorem fuse_is_maximum_witness:
  "fusedRisk (Fuse \<lparr> thresholdRisk = ALERT, thresholdDominantGas = ''lpg'' \<rparr>
                   (Some \<lparr> anomalyRisk = WARNING, predictionError = 0.92,
                           trend = Increasing \<rparr>)) = WARNING"
proof -
  have "rank (fusedRisk (Fuse \<lparr> thresholdRisk = ALERT, thresholdDominantGas = ''lpg'' \<rparr>
                   (Some \<lparr> anomalyRisk = WARNING, predictionError = 0.92,
                           trend = Increasing \<rparr>))) = 4"
    using fuse_is_maximum
      [of "\<lparr> thresholdRisk = ALERT, thresholdDominantGas = ''lpg'' \<rparr>"
          "\<lparr> anomalyRisk = WARNING, predictionError = 0.92, trend = Increasing \<rparr>"]
    by simp
  then show ?thesis
    by (cases "fusedRisk (Fuse \<lparr> thresholdRisk = ALERT, thresholdDominantGas = ''lpg'' \<rparr>
                   (Some \<lparr> anomalyRisk = WARNING, predictionError = 0.92,
                           trend = Increasing \<rparr>))") simp_all
qed

subsection \<open>Query limits\<close>




lemma parseInt_abc: "parseInt ''abc'' = None"
  by (simp add: parseInt_def isStrWhiteSpaceChar_def digitValue_def Let_def)

lemma parseInt_neg: "parseInt '' -12px'' = Some (- 12)"
  by (simp add: parseInt_def isStrWhiteSpaceChar_def digitValue_def Let_def)

lemma parseInt_hex: "parseInt ''0x1F'' = Some 31"
  by (simp add: parseInt_def isStrWhiteSpaceChar_def digitValue_def Let_def)





end
